theory Spec2Isabelle
  imports Main "HOL-Library.AList"
begin

section \<open>Open Library i18n: catalogs, the file store and the runtime resolver\<close>

text \<open>
  A shallow embedding of \<^verbatim>\<open>openlibrary/i18n/__init__.py\<close>. Every function of the
  module takes the process state (a \<open>world\<close>) and returns the new state with its result;
  an exception is the value \<open>Inl e\<close>. What the module calls in babel, gettext, web.py,
  the Python library and the operating system is not part of the module: it is modelled by
  the small definitions of the first subsections, or passed as a parameter (\<open>percent\<close>
  for the string operator \<^verbatim>\<open>%\<close>, \<open>write_mo\<close> for babel's serialiser). The extraction
  of messages (\<^verbatim>\<open>extract_templetor\<close>, \<^verbatim>\<open>extract_messages\<close>) and the legacy attribute
  lookup \<^verbatim>\<open>GetText.__getattr__\<close> are left out.
\<close>

subsection \<open>Exceptions\<close>

datatype error =
    FileNotFoundError
  | NotADirectoryError
  | IsADirectoryError
  | FileExistsError
  | AttributeError
  | PoFileError
  | MoFileError
  | TypeError
  | ValueError
  | KeyError
  | OSError

type_synonym 'a result = "error + 'a"

subsection \<open>Catalogs\<close>

text \<open>
  A message of a babel catalog, with the fields of the data model. \<open>lineno\<close> is
  \<^verbatim>\<open>None\<close> or an integer. Iterating a catalog yields its messages in insertion order,
  the header entry (id \<^verbatim>\<open>''\<close>, fuzzy when the file carries the file-level marker) first:
  a catalog is the list of the messages its iteration yields.
\<close>

record message =
  msg_id :: string
  plural_id :: "string option"
  msg_string :: string
  plural_translations :: "string list"
  locations :: "(string \<times> nat) list"
  auto_comments :: "string list"
  fuzzy :: bool
  lineno :: "int option"

type_synonym catalog = "message list"

text \<open>
  The compiled catalog a \<^verbatim>\<open>babel.support.Translations\<close> object holds: the entries of
  singular messages, the entries of plural messages by plural index, and the catalog's
  plural rule.
\<close>

record Translations =
  singular_entries :: "string \<rightharpoonup> string"
  plural_entries :: "string \<times> nat \<rightharpoonup> string"
  plural :: "int \<Rightarrow> nat"

text \<open>
  Modelled from the spec: \<^verbatim>\<open>Translations.ugettext\<close> and \<^verbatim>\<open>Translations.ungettext\<close>
  are babel's (Python's \<^verbatim>\<open>GNUTranslations.gettext\<close> and \<^verbatim>\<open>ngettext\<close>, on a catalog
  without fallback chain), absent from the repository. A lookup that misses gives the
  message back; a plural lookup that misses gives the singular for count 1 and the plural
  otherwise.
\<close>

definition t_ugettext :: "Translations \<Rightarrow> string \<Rightarrow> string" where
  "t_ugettext t message =
     (case singular_entries t message of
        Some tmsg \<Rightarrow> tmsg
      | None \<Rightarrow>
          (case plural_entries t (message, plural t 1) of
             Some tmsg \<Rightarrow> tmsg
           | None \<Rightarrow> message))"

definition t_ungettext :: "Translations \<Rightarrow> string \<Rightarrow> string \<Rightarrow> int \<Rightarrow> string" where
  "t_ungettext t msgid1 msgid2 n =
     (case plural_entries t (msgid1, plural t n) of
        Some tmsg \<Rightarrow> tmsg
      | None \<Rightarrow> (if n = 1 then msgid1 else msgid2))"

text \<open>The locale metadata of \<^verbatim>\<open>babel.Locale\<close> that the module reads.\<close>

record Locale =
  territories :: "string \<rightharpoonup> string"

subsection \<open>Files\<close>

text \<open>
  A file is modelled by what it holds: a textual catalog, a compiled catalog, or the
  unfinished output of a writer (opened for writing, so truncated, and not completed).
  Permission bits are kept as numbers; access checks against them are not modelled.
\<close>

datatype content = Po catalog | Mo Translations | Incomplete

datatype node = Dir nat | File content nat

type_synonym files = "(string \<times> node) list"

subsection \<open>The process state\<close>

text \<open>
  \<open>root\<close> is the module's directory, \<open>ctx_lang\<close> is \<^verbatim>\<open>web.ctx.lang\<close>, the two caches
  are those of \<^verbatim>\<open>@web.memoize\<close> on \<^verbatim>\<open>load_translations\<close> and \<^verbatim>\<open>load_locale\<close>,
  \<open>locale_data\<close> is the set of locales babel knows, \<open>new_file_mode\<close> and
  \<open>new_dir_mode\<close> are the permission bits the process umask leaves a created file or
  directory, and \<open>stdout\<close>, \<open>stderr\<close> and \<open>debug\<close> collect the printed lines.
\<close>

record world =
  root :: string
  ctx_lang :: string
  files :: files
  translations_cache :: "string \<rightharpoonup> Translations option"
  locale_cache :: "string \<rightharpoonup> Locale option"
  locale_data :: "string \<rightharpoonup> Locale"
  new_file_mode :: nat
  new_dir_mode :: nat
  stdout :: "string list"
  stderr :: "string list"
  debug :: "string list"

subsection \<open>Paths\<close>

text \<open>
  \<^verbatim>\<open>os.path.join\<close> (of two and of three components), \<^verbatim>\<open>os.path.basename\<close> and
  \<^verbatim>\<open>os.path.dirname\<close> on POSIX paths. A path names a file by its text: two texts for
  one file (a doubled or trailing separator) are two paths here.
\<close>

definition sep :: char where
  "sep = CHR ''/''"

definition join :: "string \<Rightarrow> string \<Rightarrow> string" where
  "join a b =
     (if b \<noteq> [] \<and> hd b = sep then b
      else if a = [] \<or> last a = sep then a @ b
      else a @ [sep] @ b)"

definition rstrip_sep :: "string \<Rightarrow> string" where
  "rstrip_sep p = rev (dropWhile (\<lambda>c. c = sep) (rev p))"

definition basename :: "string \<Rightarrow> string" where
  "basename p = rev (takeWhile (\<lambda>c. c \<noteq> sep) (rev p))"

definition dirname :: "string \<Rightarrow> string" where
  "dirname p =
     (let head = rev (dropWhile (\<lambda>c. c \<noteq> sep) (rev p))
      in if head \<noteq> [] \<and> \<not> list_all (\<lambda>c. c = sep) head then rstrip_sep head else head)"

subsection \<open>File operations\<close>

definition lookup :: "world \<Rightarrow> string \<Rightarrow> node option" where
  "lookup w p = map_of (files w) p"

definition store :: "world \<Rightarrow> string \<Rightarrow> node \<Rightarrow> world" where
  "store w p n = w\<lparr>files := AList.update p n (files w)\<rparr>"

definition exists :: "world \<Rightarrow> string \<Rightarrow> bool" where
  "exists w p = (lookup w p \<noteq> None)"

definition isdir :: "world \<Rightarrow> string \<Rightarrow> bool" where
  "isdir w p = (case lookup w p of Some (Dir m) \<Rightarrow> True | _ \<Rightarrow> False)"

definition listdir :: "world \<Rightarrow> string \<Rightarrow> string list" where
  "listdir w d = [basename p. (p, n) \<leftarrow> files w, p \<noteq> d \<and> dirname p = d]"

text \<open>\<^verbatim>\<open>open(p, 'rb')\<close> followed by reading the whole file.\<close>

definition open_rb :: "world \<Rightarrow> string \<Rightarrow> content result" where
  "open_rb w p =
     (case lookup w p of
        None \<Rightarrow> Inl FileNotFoundError
      | Some (Dir m) \<Rightarrow> Inl IsADirectoryError
      | Some (File c m) \<Rightarrow> Inr c)"

text \<open>
  \<^verbatim>\<open>open(p, 'wb')\<close>: the file is created or truncated at once, before anything is
  written to it.
\<close>

definition open_wb :: "world \<Rightarrow> string \<Rightarrow> world result" where
  "open_wb w p =
     (case lookup w p of
        Some (Dir m) \<Rightarrow> Inl IsADirectoryError
      | Some (File c m) \<Rightarrow> Inr (store w p (File Incomplete m))
      | None \<Rightarrow>
          (case lookup w (dirname p) of
             None \<Rightarrow> Inl FileNotFoundError
           | Some (File c m) \<Rightarrow> Inl NotADirectoryError
           | Some (Dir m) \<Rightarrow> Inr (store w p (File Incomplete (new_file_mode w)))))"

text \<open>Writing the whole output to an open file and closing it.\<close>

definition write_close :: "world \<Rightarrow> string \<Rightarrow> content \<Rightarrow> world" where
  "write_close w p c =
     (case lookup w p of
        Some (File c0 m) \<Rightarrow> store w p (File c m)
      | _ \<Rightarrow> w)"

definition mkdir :: "world \<Rightarrow> string \<Rightarrow> world result" where
  "mkdir w p =
     (if exists w p then Inl FileExistsError
      else
        (case lookup w (dirname p) of
           None \<Rightarrow> Inl FileNotFoundError
         | Some (File c m) \<Rightarrow> Inl NotADirectoryError
         | Some (Dir m) \<Rightarrow> Inr (store w p (Dir (new_dir_mode w)))))"

definition chmod :: "world \<Rightarrow> string \<Rightarrow> nat \<Rightarrow> world result" where
  "chmod w p m =
     (case lookup w p of
        None \<Rightarrow> Inl FileNotFoundError
      | Some (Dir m0) \<Rightarrow> Inr (store w p (Dir m))
      | Some (File c m0) \<Rightarrow> Inr (store w p (File c m)))"

text \<open>
  \<^verbatim>\<open>shutil.copy(src, dst)\<close>: the data and the permission bits of \<open>src\<close>, into the
  directory \<open>dst\<close> when \<open>dst\<close> is one.
\<close>

definition copy :: "world \<Rightarrow> string \<Rightarrow> string \<Rightarrow> world result" where
  "copy w src dst0 =
     (let dst = (if isdir w dst0 then join dst0 (basename src) else dst0)
      in case lookup w src of
           None \<Rightarrow> Inl FileNotFoundError
         | Some (Dir m) \<Rightarrow> Inl IsADirectoryError
         | Some (File c m) \<Rightarrow>
             (case open_wb w dst of
                Inl e \<Rightarrow> Inl e
              | Inr w1 \<Rightarrow> Inr (store w1 dst (File c m))))"

definition read_po :: "content \<Rightarrow> catalog result" where
  "read_po c = (case c of Po catalog \<Rightarrow> Inr catalog | _ \<Rightarrow> Inl PoFileError)"

definition read_mo :: "content \<Rightarrow> Translations result" where
  "read_mo c = (case c of Mo t \<Rightarrow> Inr t | _ \<Rightarrow> Inl MoFileError)"

definition print_stdout :: "world \<Rightarrow> string \<Rightarrow> world" where
  "print_stdout w line = w\<lparr>stdout := stdout w @ [line]\<rparr>"

definition print_stderr :: "world \<Rightarrow> string \<Rightarrow> world" where
  "print_stderr w line = w\<lparr>stderr := stderr w @ [line]\<rparr>"

definition print_debug :: "world \<Rightarrow> string \<Rightarrow> world" where
  "print_debug w line = w\<lparr>debug := debug w @ [line]\<rparr>"

subsection \<open>Rendering values as Python does\<close>

text \<open>\<^verbatim>\<open>str\<close> of an integer.\<close>

fun str_nat :: "nat \<Rightarrow> string" where
  "str_nat n =
     (if n < 10 then [''0123456789'' ! n]
      else str_nat (n div 10) @ [''0123456789'' ! (n mod 10)])"

declare str_nat.simps [simp del]

definition str_int :: "int \<Rightarrow> string" where
  "str_int i = (if i < 0 then CHR ''-'' # str_nat (nat (- i)) else str_nat (nat i))"

text \<open>
  \<^verbatim>\<open>repr\<close> of a string and of a list of strings. Characters are bytes here; the bytes
  of a non-ASCII character are left as they are.
\<close>

definition repr_char :: "char \<Rightarrow> char \<Rightarrow> string" where
  "repr_char q c =
     (if c = CHR 0x5C then [CHR 0x5C, CHR 0x5C]
      else if c = q then [CHR 0x5C, q]
      else if c = CHR 0x09 then [CHR 0x5C, CHR ''t'']
      else if c = CHR 0x0A then [CHR 0x5C, CHR ''n'']
      else if c = CHR 0x0D then [CHR 0x5C, CHR ''r'']
      else if (of_char c :: nat) < 32 \<or> (of_char c :: nat) = 127
        then [CHR 0x5C, CHR ''x'',
              ''0123456789abcdef'' ! ((of_char c :: nat) div 16),
              ''0123456789abcdef'' ! ((of_char c :: nat) mod 16)]
      else [c])"

definition py_repr :: "string \<Rightarrow> string" where
  "py_repr s =
     (let q = (if CHR 0x27 \<in> set s \<and> CHR 0x22 \<notin> set s then CHR 0x22 else CHR 0x27)
      in [q] @ concat (map (repr_char q) s) @ [q])"

fun comma_join :: "string list \<Rightarrow> string" where
  "comma_join [] = []"
| "comma_join [x] = x"
| "comma_join (x # y # ys) = x @ '', '' @ comma_join (y # ys)"

definition py_repr_list :: "string list \<Rightarrow> string" where
  "py_repr_list xs = ''['' @ comma_join (map py_repr xs) @ '']''"

text \<open>
  Modelled from the spec: \<^verbatim>\<open>web.safestr\<close> is web.py's, absent from the repository; on
  a string it is the string.
\<close>

definition safestr :: "string \<Rightarrow> string" where
  "safestr s = s"

text \<open>
  The right operand of the string operator \<^verbatim>\<open>%\<close>: the tuple of positional arguments
  or the dictionary of named ones. The operator itself is the parameter \<open>percent\<close> of the
  functions below.
\<close>

datatype 'a fmtargs = Tuple "'a list" | Dict "(string \<times> 'a) list"

subsection \<open>The runtime resolver\<close>

definition join3 :: "string \<Rightarrow> string \<Rightarrow> string \<Rightarrow> string" where
  "join3 a b c = join (join a b) c"

text \<open>The body of \<^verbatim>\<open>load_translations\<close>, without the cache.\<close>

definition load_translations_body :: "world \<Rightarrow> string \<Rightarrow> Translations option result" where
  "load_translations_body w lang =
     (let po = join3 (root w) lang ''messages.po'';
          mo_path = join3 (root w) lang ''messages.mo''
      in if exists w mo_path
         then (case open_rb w mo_path of
                 Inl e \<Rightarrow> Inl e
               | Inr c \<Rightarrow>
                   (case read_mo c of
                      Inl e \<Rightarrow> Inl e
                    | Inr t \<Rightarrow> Inr (Some t)))
         else Inr None)"

text \<open>
  Modelled from the spec: \<^verbatim>\<open>web.memoize\<close> is web.py's, absent from the repository: a
  process-wide cache keyed by the argument, filled by the first call that returns and
  never read from disk again, a returned \<^verbatim>\<open>None\<close> included.
\<close>

definition load_translations :: "world \<Rightarrow> string \<Rightarrow> world \<times> Translations option result" where
  "load_translations w lang =
     (case translations_cache w lang of
        Some v \<Rightarrow> (w, Inr v)
      | None \<Rightarrow>
          (case load_translations_body w lang of
             Inl e \<Rightarrow> (w, Inl e)
           | Inr v \<Rightarrow> (w\<lparr>translations_cache := (translations_cache w)(lang \<mapsto> v)\<rparr>, Inr v)))"

text \<open>
  The body of \<^verbatim>\<open>load_locale\<close>: \<^verbatim>\<open>babel.Locale(lang)\<close> raises UnknownLocaleError for
  a locale babel has no data for, the handler passes, and the function returns
  \<^verbatim>\<open>None\<close>.
\<close>

definition load_locale_body :: "world \<Rightarrow> string \<Rightarrow> Locale option" where
  "load_locale_body w lang =
     (case locale_data w lang of
        Some l \<Rightarrow> Some l
      | None \<Rightarrow> None)"

definition load_locale :: "world \<Rightarrow> string \<Rightarrow> world \<times> Locale option" where
  "load_locale w lang =
     (case locale_cache w lang of
        Some v \<Rightarrow> (w, v)
      | None \<Rightarrow>
          (let v = load_locale_body w lang
           in (w\<lparr>locale_cache := (locale_cache w)(lang \<mapsto> v)\<rparr>, v)))"

text \<open>
  \<^verbatim>\<open>GetText.__call__\<close>. \<^verbatim>\<open>(translations and translations.ugettext(string)) or string\<close>
  is \<open>string\<close> when there is no catalog and when the looked-up value is the empty string.
\<close>

definition GetText_call ::
  "(string \<Rightarrow> 'a fmtargs \<Rightarrow> string result) \<Rightarrow> world \<Rightarrow> string \<Rightarrow> 'a list \<Rightarrow> (string \<times> 'a) list
     \<Rightarrow> world \<times> string result" where
  "GetText_call percent w string args kwargs =
     (case load_translations w (ctx_lang w) of
        (w1, Inl e) \<Rightarrow> (w1, Inl e)
      | (w1, Inr translations) \<Rightarrow>
          (let value =
                 (case translations of
                    None \<Rightarrow> string
                  | Some t \<Rightarrow> (if t_ugettext t string \<noteq> [] then t_ugettext t string else string))
           in if args \<noteq> [] then (w1, percent value (Tuple args))
              else if kwargs \<noteq> [] then (w1, percent value (Dict kwargs))
              else (w1, Inr value)))"

text \<open>
  \<^verbatim>\<open>LazyObject\<close> holds the creator, a closure that runs in the state of the moment it is
  called; \<^verbatim>\<open>LazyGetText.__call__\<close> builds it without calling it.
\<close>

datatype LazyObject = LazyObject (creator: "world \<Rightarrow> world \<times> string result")

definition LazyGetText_call ::
  "(string \<Rightarrow> 'a fmtargs \<Rightarrow> string result) \<Rightarrow> world \<Rightarrow> string \<Rightarrow> 'a list \<Rightarrow> (string \<times> 'a) list
     \<Rightarrow> world \<times> LazyObject" where
  "LazyGetText_call percent w string args kwargs =
     (w, LazyObject (\<lambda>w'. GetText_call percent w' string args kwargs))"

definition LazyObject_str :: "LazyObject \<Rightarrow> world \<Rightarrow> world \<times> string result" where
  "LazyObject_str self w =
     (case creator self w of
        (w1, Inl e) \<Rightarrow> (w1, Inl e)
      | (w1, Inr v) \<Rightarrow> (w1, Inr (safestr v)))"

definition LazyObject_repr :: "LazyObject \<Rightarrow> world \<Rightarrow> world \<times> string result" where
  "LazyObject_repr self w =
     (case creator self w of
        (w1, Inl e) \<Rightarrow> (w1, Inl e)
      | (w1, Inr v) \<Rightarrow> (w1, Inr (py_repr v)))"

definition LazyObject_add :: "LazyObject \<Rightarrow> string \<Rightarrow> world \<Rightarrow> world \<times> string result" where
  "LazyObject_add self other w =
     (case creator self w of
        (w1, Inl e) \<Rightarrow> (w1, Inl e)
      | (w1, Inr v) \<Rightarrow> (w1, Inr (v @ other)))"

definition LazyObject_radd :: "LazyObject \<Rightarrow> string \<Rightarrow> world \<Rightarrow> world \<times> string result" where
  "LazyObject_radd self other w =
     (case creator self w of
        (w1, Inl e) \<Rightarrow> (w1, Inl e)
      | (w1, Inr v) \<Rightarrow> (w1, Inr (other @ v)))"

text \<open>
  \<^verbatim>\<open>ungettext\<close>. \<^verbatim>\<open>not value\<close> holds when there is no catalog and when the looked-up
  value is the empty string.
\<close>

definition ungettext ::
  "(string \<Rightarrow> 'a fmtargs \<Rightarrow> string result) \<Rightarrow> world \<Rightarrow> string \<Rightarrow> string \<Rightarrow> int \<Rightarrow> 'a list
     \<Rightarrow> (string \<times> 'a) list \<Rightarrow> world \<times> string result" where
  "ungettext percent w s1 s2 n a kw =
     (case load_translations w (ctx_lang w) of
        (w1, Inl e) \<Rightarrow> (w1, Inl e)
      | (w1, Inr translations) \<Rightarrow>
          (let value0 = (case translations of None \<Rightarrow> None | Some t \<Rightarrow> Some (t_ungettext t s1 s2 n));
               value =
                 (case value0 of
                    Some v \<Rightarrow> (if v \<noteq> [] then v else if n = 1 then s1 else s2)
                  | None \<Rightarrow> (if n = 1 then s1 else s2))
           in if a \<noteq> [] then (w1, percent value (Tuple a))
              else if kw \<noteq> [] then (w1, percent value (Dict kw))
              else (w1, Inr value)))"

text \<open>
  \<^verbatim>\<open>gettext_territory\<close>: \<^verbatim>\<open>locale.territories\<close> is read without a test of
  \<^verbatim>\<open>locale\<close>, and raises AttributeError on \<^verbatim>\<open>None\<close>.
\<close>

definition gettext_territory :: "world \<Rightarrow> string \<Rightarrow> world \<times> string result" where
  "gettext_territory w code =
     (case load_locale w (ctx_lang w) of
        (w1, None) \<Rightarrow> (w1, Inl AttributeError)
      | (w1, Some locale) \<Rightarrow>
          (w1, Inr (case territories locale code of Some name \<Rightarrow> name | None \<Rightarrow> code)))"

subsection \<open>Validation\<close>

text \<open>
  \<^verbatim>\<open>message.string\<close> as the f-string renders it: the translation of a singular
  message, the tuple of the plural forms of a plural one.
\<close>

definition py_repr_tuple :: "string list \<Rightarrow> string" where
  "py_repr_tuple xs =
     (case xs of
        [x] \<Rightarrow> ''('' @ py_repr x @ '',)''
      | _ \<Rightarrow> ''('' @ comma_join (map py_repr xs) @ '')'')"

definition message_string_str :: "message \<Rightarrow> string" where
  "message_string_str m =
     (case plural_id m of
        None \<Rightarrow> msg_string m
      | Some p \<Rightarrow> py_repr_tuple (plural_translations m))"

text \<open>The truth value of \<^verbatim>\<open>message.lineno\<close>: false for \<^verbatim>\<open>None\<close> and for 0.\<close>

definition lineno_truthy :: "message \<Rightarrow> bool" where
  "lineno_truthy m = (case lineno m of None \<Rightarrow> False | Some i \<Rightarrow> i \<noteq> 0)"

definition lineno_str :: "message \<Rightarrow> string" where
  "lineno_str m = (case lineno m of None \<Rightarrow> ''None'' | Some i \<Rightarrow> str_int i)"

definition file_is_fuzzy :: string where
  "file_is_fuzzy =
     ''  File is fuzzy.  Remove line containing '' @ [CHR 0x22] @ ''#, fuzzy'' @ [CHR 0x22]
       @ '' found near the beginning of the file.''"

definition fuzzy_line :: "string \<Rightarrow> message \<Rightarrow> string" where
  "fuzzy_line locale m =
     ''openlibrary/i18n/'' @ locale @ ''/messages.po:'' @ lineno_str m @ '':''
       @ '' '' @ [CHR 0x22] @ message_string_str m @ [CHR 0x22] @ '' is fuzzy.''"

text \<open>The loop of \<^verbatim>\<open>_validate_catalog\<close>, with the list it appends to.\<close>

fun validation_loop :: "string \<Rightarrow> catalog \<Rightarrow> string list \<Rightarrow> string list" where
  "validation_loop locale [] validation_errors = validation_errors"
| "validation_loop locale (message # rest) validation_errors =
     validation_loop locale rest
       (if fuzzy message
        then (if lineno_truthy message
              then validation_errors @ [fuzzy_line locale message]
              else validation_errors @ [file_is_fuzzy])
        else validation_errors)"

definition validation_errors_of :: "catalog \<Rightarrow> string \<Rightarrow> string list" where
  "validation_errors_of catalog locale = validation_loop locale catalog []"

definition validate_catalog :: "world \<Rightarrow> catalog \<Rightarrow> string \<Rightarrow> world \<times> bool" where
  "validate_catalog w catalog locale =
     (let validation_errors = validation_errors_of catalog locale;
          w1 = (if validation_errors \<noteq> []
                then foldl print_stdout
                       (print_stdout (print_stdout w ''Validation failed...'')
                          ''Please correct the following errors before proceeding:'')
                       validation_errors
                else w)
      in (w1, length validation_errors = 0))"

definition validate_translations :: "world \<Rightarrow> string list \<Rightarrow> world \<times> bool result" where
  "validate_translations w args =
     (case args of
        [] \<Rightarrow> (print_stdout w ''Must include locale code when executing validate.'', Inr False)
      | locale # _ \<Rightarrow>
          (let po_path = join3 (root w) locale ''messages.po''
           in if exists w po_path
              then (case open_rb w po_path of
                      Inl e \<Rightarrow> (w, Inl e)
                    | Inr c \<Rightarrow>
                        (case read_po c of
                           Inl e \<Rightarrow> (w, Inl e)
                         | Inr catalog \<Rightarrow>
                             (case validate_catalog w catalog locale of
                                (w1, is_valid) \<Rightarrow>
                                  (if is_valid
                                   then print_stdout w1
                                          (''Translations for locale '' @ [CHR 0x22] @ locale
                                             @ [CHR 0x22] @ '' are valid!'')
                                   else w1, Inr is_valid))))
              else (print_stdout w
                      (''Portable object file for locale '' @ [CHR 0x22] @ locale @ [CHR 0x22]
                         @ '' does not exist.''), Inr False)))"

subsection \<open>Compilation\<close>

definition get_locales :: "world \<Rightarrow> string list" where
  "get_locales w =
     [d \<leftarrow> listdir w (root w).
        isdir w (join (root w) d) \<and> exists w (join3 (root w) d ''messages.po'')]"

text \<open>
  \<^verbatim>\<open>_compile_translation\<close>. \<open>write_mo\<close> stands for babel's serialiser: the compiled
  catalog, or the exception it raises. The handler prints and raises the exception again;
  it does not touch the file at \<open>mo\<close>.
\<close>

definition compile_translation ::
  "(catalog \<Rightarrow> Translations result) \<Rightarrow> world \<Rightarrow> string \<Rightarrow> string \<Rightarrow> world \<times> unit result" where
  "compile_translation write_mo w po mo =
     (case open_rb w po of
        Inl e \<Rightarrow> (print_debug w (''failed to compile '' @ po), Inl e)
      | Inr c \<Rightarrow>
          (case read_po c of
             Inl e \<Rightarrow> (print_debug w (''failed to compile '' @ po), Inl e)
           | Inr catalog \<Rightarrow>
               (case open_wb w mo of
                  Inl e \<Rightarrow> (print_debug w (''failed to compile '' @ po), Inl e)
                | Inr w1 \<Rightarrow>
                    (case write_mo catalog of
                       Inl e \<Rightarrow> (print_debug w1 (''failed to compile '' @ po), Inl e)
                     | Inr t \<Rightarrow>
                         (print_debug (write_close w1 mo (Mo t)) (''compiled '' @ po), Inr ())))))"

fun compile_loop ::
  "(catalog \<Rightarrow> Translations result) \<Rightarrow> world \<Rightarrow> string list \<Rightarrow> world \<times> unit result" where
  "compile_loop write_mo w [] = (w, Inr ())"
| "compile_loop write_mo w (locale # rest) =
     (let po_path = join3 (root w) locale ''messages.po'';
          mo_path = join3 (root w) locale ''messages.mo''
      in if exists w po_path
         then (case compile_translation write_mo w po_path mo_path of
                 (w1, Inl e) \<Rightarrow> (w1, Inl e)
               | (w1, Inr u) \<Rightarrow> compile_loop write_mo w1 rest)
         else compile_loop write_mo w rest)"

definition compile_translations ::
  "(catalog \<Rightarrow> Translations result) \<Rightarrow> world \<Rightarrow> string list \<Rightarrow> world \<times> unit result" where
  "compile_translations write_mo w locales =
     (let locales_to_update = (if locales \<noteq> [] then locales else get_locales w)
      in compile_loop write_mo w locales_to_update)"

subsection \<open>Synchronisation\<close>

text \<open>
  Modelled from the spec: \<^verbatim>\<open>Catalog.update\<close> is babel's, absent from the repository.
  The merge rule of the Locale Synchronizer, per message of the template and in the
  template's order: an id the existing catalog has keeps the existing translation, plural
  translations and fuzzy state, with the template's locations and comments; an id it does
  not have is inserted with an empty translation and not fuzzy; an id only the existing
  catalog has is dropped.
\<close>

definition find_message :: "catalog \<Rightarrow> string \<Rightarrow> message option" where
  "find_message catalog i = find (\<lambda>m. msg_id m = i) catalog"

definition merge_message :: "catalog \<Rightarrow> message \<Rightarrow> message" where
  "merge_message existing t =
     (case find_message existing (msg_id t) of
        Some e \<Rightarrow>
          t\<lparr>msg_string := msg_string e, plural_translations := plural_translations e,
            fuzzy := fuzzy e\<rparr>
      | None \<Rightarrow> t\<lparr>msg_string := [], plural_translations := [], fuzzy := False\<rparr>)"

definition catalog_update :: "catalog \<Rightarrow> catalog \<Rightarrow> catalog" where
  "catalog_update existing template = map (merge_message existing) template"

text \<open>
  The loop of \<^verbatim>\<open>update_translations\<close>. The working catalog is read, merged, and
  written back over its own path; \<^verbatim>\<open>write_po\<close> is taken to write every catalog.
\<close>

fun update_loop :: "world \<Rightarrow> catalog \<Rightarrow> string list \<Rightarrow> world \<times> unit result" where
  "update_loop w template [] = (w, Inr ())"
| "update_loop w template (locale # rest) =
     (let po_path = join3 (root w) locale ''messages.po'';
          mo_path = join3 (root w) locale ''messages.mo''
      in if exists w po_path
         then (case open_rb w po_path of
                 Inl e \<Rightarrow> (w, Inl e)
               | Inr c \<Rightarrow>
                   (case read_po c of
                      Inl e \<Rightarrow> (w, Inl e)
                    | Inr catalog \<Rightarrow>
                        (case open_wb w po_path of
                           Inl e \<Rightarrow> (w, Inl e)
                         | Inr w1 \<Rightarrow>
                             update_loop
                               (print_stdout
                                  (write_close w1 po_path (Po (catalog_update catalog template)))
                                  (''updated '' @ po_path))
                               template rest)))
         else update_loop
                (print_stdout w (''ERROR: '' @ po_path @ '' does not exist...''))
                template rest)"

definition update_translations ::
  "(catalog \<Rightarrow> Translations result) \<Rightarrow> world \<Rightarrow> string list \<Rightarrow> world \<times> unit result" where
  "update_translations write_mo w locales =
     (let locales_to_update = (if locales \<noteq> [] then locales else get_locales w);
          w0 = print_stdout w (''Updating '' @ py_repr_list locales_to_update);
          pot_path = join (root w) ''messages.pot''
      in case open_rb w0 pot_path of
           Inl e \<Rightarrow> (w0, Inl e)
         | Inr c \<Rightarrow>
             (case read_po c of
                Inl e \<Rightarrow> (w0, Inl e)
              | Inr template \<Rightarrow>
                  (case update_loop w0 template locales_to_update of
                     (w1, Inl e) \<Rightarrow> (w1, Inl e)
                   | (w1, Inr u) \<Rightarrow> compile_translations write_mo w1 locales_to_update)))"

subsection \<open>Seeding a locale\<close>

text \<open>
  \<^verbatim>\<open>generate_po\<close>; 438 is \<^verbatim>\<open>0o666\<close> and 511 is \<^verbatim>\<open>0o777\<close>. The three statements
  that both creating branches end with (copy, chmod, print) are \<open>copy_template\<close>.
\<close>

definition copy_template :: "world \<Rightarrow> string \<Rightarrow> string \<Rightarrow> world \<times> unit result" where
  "copy_template w pot_src po_dest =
     (case copy w pot_src po_dest of
        Inl e \<Rightarrow> (w, Inl e)
      | Inr w1 \<Rightarrow>
          (case chmod w1 po_dest 438 of
             Inl e \<Rightarrow> (w1, Inl e)
           | Inr w2 \<Rightarrow> (print_stdout w2 (''File created at '' @ po_dest), Inr ())))"

definition generate_po :: "world \<Rightarrow> string list \<Rightarrow> world \<times> unit result" where
  "generate_po w args =
     (case args of
        [] \<Rightarrow> (print_stdout w ''Add failed. Missing required locale code.'', Inr ())
      | a0 # _ \<Rightarrow>
          (let po_dir = join (root w) a0;
               pot_src = join (root w) ''messages.pot'';
               po_dest = join po_dir ''messages.po''
           in if exists w po_dir
              then (if exists w po_dest
                    then (print_stdout w (''Portable object file already exists at '' @ po_dest),
                          Inr ())
                    else copy_template w pot_src po_dest)
              else (case mkdir w po_dir of
                      Inl e \<Rightarrow> (w, Inl e)
                    | Inr w1 \<Rightarrow>
                        (case chmod w1 po_dir 511 of
                           Inl e \<Rightarrow> (w1, Inl e)
                         | Inr w2 \<Rightarrow> copy_template w2 pot_src po_dest))))"

subsection \<open>Example states\<close>

text \<open>
  A template, a French working catalog with one fuzzy entry and one retired one, a French
  compiled catalog whose plural rule takes the plural form for counts above one and which
  has entries translated to the empty string, and a state whose active locale is
  \<^verbatim>\<open>fr\<close>, with a directory for \<^verbatim>\<open>de\<close> that holds no catalog. They are the
  concrete inputs of the closed theorems below.
\<close>

definition fr_translations :: Translations where
  "fr_translations =
     \<lparr>singular_entries = Map.empty(''Hello'' \<mapsto> ''Bonjour'', ''Search'' \<mapsto> ''''),
      plural_entries =
        Map.empty((''%d book'', 0) \<mapsto> ''%d livre'', (''%d book'', 1) \<mapsto> ''%d livres'',
                  (''%d hit'', 0) \<mapsto> '''', (''%d hit'', 1) \<mapsto> ''''),
      plural = (\<lambda>n. if 1 < n then 1 else 0)\<rparr>"

definition entry :: "string \<Rightarrow> string \<Rightarrow> bool \<Rightarrow> int option \<Rightarrow> message" where
  "entry i s fz ln =
     \<lparr>msg_id = i, plural_id = None, msg_string = s, plural_translations = [], locations = [],
      auto_comments = [], fuzzy = fz, lineno = ln\<rparr>"

definition template_catalog :: catalog where
  "template_catalog =
     [entry '''' '''' False None,
      entry ''Hello'' '''' False (Some 3),
      entry ''Search'' '''' False (Some 7),
      entry ''Browse'' '''' False (Some 9)]"

definition fr_catalog :: catalog where
  "fr_catalog =
     [entry '''' ''Language: fr'' False None,
      entry ''Hello'' ''Bonjour'' True (Some 12),
      entry ''Search'' '''' False (Some 15),
      entry ''Retired'' ''Retraite'' False (Some 18)]"

definition example_world :: world where
  "example_world =
     \<lparr>root = ''/ol/i18n'', ctx_lang = ''fr'',
      files = [(''/ol/i18n'', Dir 493),
               (''/ol/i18n/messages.pot'', File (Po template_catalog) 420),
               (''/ol/i18n/fr'', Dir 493),
               (''/ol/i18n/fr/messages.po'', File (Po fr_catalog) 420),
               (''/ol/i18n/fr/messages.mo'', File (Mo fr_translations) 420),
               (''/ol/i18n/de'', Dir 493)],
      translations_cache = Map.empty, locale_cache = Map.empty,
      locale_data = Map.empty(''fr'' \<mapsto> \<lparr>territories = Map.empty(''US'' \<mapsto> ''Etats-Unis'')\<rparr>),
      new_file_mode = 420, new_dir_mode = 493, stdout = [], stderr = [], debug = []\<rparr>"

text \<open>A stand-in for the operator \<^verbatim>\<open>%\<close> where no format argument is given.\<close>

definition no_percent :: "string \<Rightarrow> unit fmtargs \<Rightarrow> string result" where
  "no_percent v a = Inl TypeError"

text \<open>A serialiser that raises, and one that succeeds.\<close>

definition failing_write_mo :: "catalog \<Rightarrow> Translations result" where
  "failing_write_mo catalog = Inl OSError"

definition working_write_mo :: "catalog \<Rightarrow> Translations result" where
  "working_write_mo catalog = Inr fr_translations"

section \<open>Properties\<close>

subsection \<open>Loading compiled catalogs\<close>

lemma load_translations_cached:
  assumes "translations_cache w lang = Some v"
  shows "load_translations w lang = (w, Inr v)"
  using assms by (simp add: load_translations_def)

lemma load_translations_absent:
  assumes "translations_cache w lang = None"
      and "\<not> exists w (join3 (root w) lang ''messages.mo'')"
  shows "load_translations w lang =
           (w\<lparr>translations_cache := (translations_cache w)(lang \<mapsto> None)\<rparr>, Inr None)"
  using assms by (simp add: load_translations_def load_translations_body_def)

lemma load_translations_present:
  assumes "translations_cache w lang = None"
      and "lookup w (join3 (root w) lang ''messages.mo'') = Some (File (Mo t) m)"
  shows "load_translations w lang =
           (w\<lparr>translations_cache := (translations_cache w)(lang \<mapsto> Some t)\<rparr>, Inr (Some t))"
  using assms
  by (simp add: load_translations_def load_translations_body_def exists_def open_rb_def read_mo_def)

lemma load_translations_unfinished:
  assumes "translations_cache w lang = None"
      and "lookup w (join3 (root w) lang ''messages.mo'') = Some (File Incomplete m)"
  shows "load_translations w lang = (w, Inl MoFileError)"
  using assms
  by (simp add: load_translations_def load_translations_body_def exists_def open_rb_def read_mo_def)

text \<open>The two loads the closed theorems below start from.\<close>

lemmas load_defs =
  load_translations_def load_translations_body_def join3_def join_def sep_def
  exists_def lookup_def open_rb_def read_mo_def

lemma load_fr: "snd (load_translations example_world ''fr'') = Inr (Some fr_translations)"
  by (simp add: load_defs example_world_def)

lemma load_de: "snd (load_translations (example_world\<lparr>ctx_lang := ''de''\<rparr>) ''de'') = Inr None"
  by (simp add: load_defs example_world_def)

lemma load_fr_obtain:
  obtains w1 where
    "load_translations example_world (ctx_lang example_world) = (w1, Inr (Some fr_translations))"
  using load_fr
  by (cases "load_translations example_world ''fr''") (simp add: example_world_def)

lemma load_de_obtain:
  obtains w1 where
    "load_translations (example_world\<lparr>ctx_lang := ''de''\<rparr>)
       (ctx_lang (example_world\<lparr>ctx_lang := ''de''\<rparr>)) = (w1, Inr None)"
  using load_de
  by (cases "load_translations (example_world\<lparr>ctx_lang := ''de''\<rparr>) ''de''") simp

subsection \<open>Resolution\<close>

lemma resolve_loaded_fallback:
  assumes "load_translations w (ctx_lang w) = (w1, Inr tr)"
      and "tr = None \<or> (\<exists>t. tr = Some t \<and> singular_entries t message = None
             \<and> plural_entries t (message, plural t 1) = None)"
  shows "GetText_call percent w message [] [] = (w1, Inr message)"
  using assms by (auto simp: GetText_call_def t_ugettext_def)

text \<open>
  C2, as amended. Resolution fallback: \<^verbatim>\<open>GetText.__call__\<close> without format arguments
  returns the message unchanged when the locale has no compiled catalog (the cache holds
  \<^verbatim>\<open>None\<close> for it, or holds nothing and there is no \<^verbatim>\<open>messages.mo\<close>), and when its
  compiled catalog (cached, or read from \<^verbatim>\<open>messages.mo\<close>) does not have the message.
  The call raises exactly when nothing is cached for the locale and \<^verbatim>\<open>messages.mo\<close>
  exists without holding a compiled catalog: a directory, or a file that cannot be parsed.
\<close>

theorem resolve_fallback_or_raise:
  assumes "mo = join3 (root w) (ctx_lang w) ''messages.mo''"
  shows "(translations_cache w (ctx_lang w) = Some None
            \<or> (translations_cache w (ctx_lang w) = None \<and> \<not> exists w mo)
          \<longrightarrow> snd (GetText_call percent w message [] []) = Inr message)
       \<and> ((translations_cache w (ctx_lang w) = Some (Some t)
              \<or> (translations_cache w (ctx_lang w) = None \<and> lookup w mo = Some (File (Mo t) m)))
            \<and> singular_entries t message = None
            \<and> plural_entries t (message, plural t 1) = None
          \<longrightarrow> snd (GetText_call percent w message [] []) = Inr message)
       \<and> ((\<exists>e. snd (GetText_call percent w message [] []) = Inl e)
            = (translations_cache w (ctx_lang w) = None
               \<and> (\<exists>n. lookup w mo = Some n \<and> (\<forall>t' m'. n \<noteq> File (Mo t') m'))))"
proof -
  have a: "translations_cache w (ctx_lang w) = Some None
            \<or> (translations_cache w (ctx_lang w) = None \<and> \<not> exists w mo)
          \<longrightarrow> snd (GetText_call percent w message [] []) = Inr message"
    using assms
    by (auto simp: GetText_call_def load_translations_def load_translations_body_def)
  have b: "(translations_cache w (ctx_lang w) = Some (Some t)
              \<or> (translations_cache w (ctx_lang w) = None \<and> lookup w mo = Some (File (Mo t) m)))
            \<and> singular_entries t message = None
            \<and> plural_entries t (message, plural t 1) = None
          \<longrightarrow> snd (GetText_call percent w message [] []) = Inr message"
    using assms
    by (auto simp: GetText_call_def load_translations_def load_translations_body_def
          exists_def open_rb_def read_mo_def t_ugettext_def)
  have c: "(\<exists>e. snd (GetText_call percent w message [] []) = Inl e)
            = (translations_cache w (ctx_lang w) = None
               \<and> (\<exists>n. lookup w mo = Some n \<and> (\<forall>t' m'. n \<noteq> File (Mo t') m')))"
  proof (cases "translations_cache w (ctx_lang w)")
    case (Some v)
    then show ?thesis
      by (cases v) (simp_all add: GetText_call_def load_translations_def)
  next
    case None
    show ?thesis
    proof (cases "lookup w mo")
      case None
      with \<open>translations_cache w (ctx_lang w) = None\<close> assms show ?thesis
        by (simp add: GetText_call_def load_translations_def load_translations_body_def exists_def)
    next
      case (Some n)
      show ?thesis
      proof (cases n)
        case (Dir dm)
        with Some \<open>translations_cache w (ctx_lang w) = None\<close> assms show ?thesis
          by (simp add: GetText_call_def load_translations_def load_translations_body_def
                exists_def open_rb_def)
      next
        case (File c fm)
        with Some \<open>translations_cache w (ctx_lang w) = None\<close> assms show ?thesis
          by (cases c)
             (simp_all add: GetText_call_def load_translations_def load_translations_body_def
                exists_def open_rb_def read_mo_def)
      qed
    qed
  qed
  from a b c show ?thesis by blast
qed

theorem resolve_fallback_or_raise_witness:
  "snd (GetText_call no_percent (example_world\<lparr>ctx_lang := ''de''\<rparr>) ''Hello'' [] [])
       = Inr ''Hello''
   \<and> singular_entries fr_translations ''Goodbye'' = None
   \<and> plural_entries fr_translations (''Goodbye'', plural fr_translations 1) = None
   \<and> snd (GetText_call no_percent example_world ''Goodbye'' [] []) = Inr ''Goodbye''"
proof -
  let ?de = "example_world\<lparr>ctx_lang := ''de''\<rparr>"
  have mde: "''/ol/i18n/de/messages.mo'' = join3 (root ?de) (ctx_lang ?de) ''messages.mo''"
    by (simp add: example_world_def join3_def join_def sep_def)
  have mfr: "''/ol/i18n/fr/messages.mo''
               = join3 (root example_world) (ctx_lang example_world) ''messages.mo''"
    by (simp add: example_world_def join3_def join_def sep_def)
  have hde: "translations_cache ?de (ctx_lang ?de) = None
               \<and> \<not> exists ?de ''/ol/i18n/de/messages.mo''"
    by (simp add: example_world_def exists_def lookup_def)
  have hfr: "translations_cache example_world (ctx_lang example_world) = None
               \<and> lookup example_world ''/ol/i18n/fr/messages.mo''
                     = Some (File (Mo fr_translations) 420)"
    by (simp add: example_world_def lookup_def)
  have a: "singular_entries fr_translations ''Goodbye'' = None"
    by (simp add: fr_translations_def)
  have b: "plural_entries fr_translations (''Goodbye'', plural fr_translations 1) = None"
    by (simp add: fr_translations_def)
  have c1: "snd (GetText_call no_percent ?de ''Hello'' [] []) = Inr ''Hello''"
    using resolve_fallback_or_raise [OF mde, where percent = no_percent and message = "''Hello''"]
          hde
    by blast
  have c2: "snd (GetText_call no_percent example_world ''Goodbye'' [] []) = Inr ''Goodbye''"
    using resolve_fallback_or_raise
            [OF mfr, where percent = no_percent and message = "''Goodbye''"
               and t = fr_translations and m = 420]
          hfr a b
    by blast
  from a b c1 c2 show ?thesis by blast
qed

text \<open>
  C3. Plural fallback: when the locale has no compiled catalog, or its catalog has no
  entry for the plural form of the count, or has the empty string there,
  \<^verbatim>\<open>ungettext\<close> takes \<open>one\<close> for count 1 and \<open>many\<close> otherwise, and then applies the
  substitution the format arguments ask for.
\<close>

theorem plural_fallback:
  assumes "load_translations w (ctx_lang w) = (w1, Inr tr)"
      and "tr = None \<or> (\<exists>t. tr = Some t \<and> (plural_entries t (one, plural t n) = None
             \<or> plural_entries t (one, plural t n) = Some []))"
  shows "ungettext percent w one many n a kw =
           (w1, if a \<noteq> [] then percent (if n = 1 then one else many) (Tuple a)
                else if kw \<noteq> [] then percent (if n = 1 then one else many) (Dict kw)
                else Inr (if n = 1 then one else many))"
  using assms by (auto simp: ungettext_def t_ungettext_def)

theorem plural_fallback_witness:
  "snd (load_translations (example_world\<lparr>ctx_lang := ''de''\<rparr>) ''de'') = Inr None
   \<and> snd (ungettext no_percent (example_world\<lparr>ctx_lang := ''de''\<rparr>)
            ''one item'' ''many items'' 1 [] []) = Inr ''one item''
   \<and> snd (ungettext no_percent (example_world\<lparr>ctx_lang := ''de''\<rparr>)
            ''one item'' ''many items'' 5 [] []) = Inr ''many items''
   \<and> snd (ungettext no_percent (example_world\<lparr>ctx_lang := ''de''\<rparr>)
            ''one item'' ''many items'' 5 [()] []) = Inl TypeError"
proof -
  let ?de = "example_world\<lparr>ctx_lang := ''de''\<rparr>"
  obtain w1 where h1: "load_translations ?de (ctx_lang ?de) = (w1, Inr None)"
    by (rule load_de_obtain)
  have p: "(None :: Translations option) = None \<or> (\<exists>t. None = Some t
             \<and> (plural_entries t (one, plural t n) = None
                  \<or> plural_entries t (one, plural t n) = Some []))" for one :: string and n :: int
    by simp
  have c1: "ungettext no_percent ?de ''one item'' ''many items'' 1 [] [] = (w1, Inr ''one item'')"
    using plural_fallback [OF h1 p, where percent = no_percent and many = "''many items''" and a = "[]" and kw = "[]"]
    by simp
  have c5: "ungettext no_percent ?de ''one item'' ''many items'' 5 [] [] = (w1, Inr ''many items'')"
    using plural_fallback [OF h1 p, where percent = no_percent and many = "''many items''" and a = "[]" and kw = "[]"]
    by simp
  have c6: "ungettext no_percent ?de ''one item'' ''many items'' 5 [()] [] = (w1, Inl TypeError)"
    using plural_fallback [OF h1 p, where percent = no_percent and many = "''many items''" and a = "[()]" and kw = "[]"]
    by (simp add: no_percent_def)
  show ?thesis using load_de c1 c5 c6 by simp
qed

text \<open>
  C10. Empty-translation fallback: when the compiled catalog gives the empty string for
  the message (or for the plural form of the count), \<^verbatim>\<open>GetText.__call__\<close> and
  \<^verbatim>\<open>ungettext\<close> go on with the source message (or the message the count selects), as
  they do for a missing translation, because the looked-up value is tested for truth; so
  without format arguments a non-empty source message never resolves to the empty string.
\<close>

theorem empty_translation_fallback:
  assumes "load_translations w (ctx_lang w) = (w1, Inr (Some t))"
  shows "(t_ugettext t message = [] \<longrightarrow>
            GetText_call percent w message args kwargs =
              (w1, if args \<noteq> [] then percent message (Tuple args)
                   else if kwargs \<noteq> [] then percent message (Dict kwargs)
                   else Inr message))
       \<and> (t_ungettext t one many n = [] \<longrightarrow>
            ungettext percent w one many n args kwargs =
              (w1, if args \<noteq> [] then percent (if n = 1 then one else many) (Tuple args)
                   else if kwargs \<noteq> [] then percent (if n = 1 then one else many) (Dict kwargs)
                   else Inr (if n = 1 then one else many)))
       \<and> (message \<noteq> [] \<longrightarrow> snd (GetText_call percent w message [] []) \<noteq> Inr [])
       \<and> (one \<noteq> [] \<and> many \<noteq> [] \<longrightarrow> snd (ungettext percent w one many n [] []) \<noteq> Inr [])"
  using assms by (auto simp: GetText_call_def ungettext_def)

theorem empty_translation_fallback_witness:
  "snd (load_translations example_world ''fr'') = Inr (Some fr_translations)
   \<and> singular_entries fr_translations ''Search'' = Some ''''
   \<and> plural_entries fr_translations (''%d hit'', plural fr_translations 3) = Some ''''
   \<and> snd (GetText_call no_percent example_world ''Search'' [] []) = Inr ''Search''
   \<and> snd (ungettext no_percent example_world ''%d hit'' ''%d hits'' 3 [] []) = Inr ''%d hits''
   \<and> snd (ungettext no_percent example_world ''%d hit'' ''%d hits'' 1 [] []) = Inr ''%d hit''"
proof -
  obtain w2 where
    h2: "load_translations example_world (ctx_lang example_world) = (w2, Inr (Some fr_translations))"
    by (rule load_fr_obtain)
  have a: "singular_entries fr_translations ''Search'' = Some ''''"
    by (simp add: fr_translations_def)
  have b: "plural_entries fr_translations (''%d hit'', plural fr_translations 3) = Some ''''"
    by (simp add: fr_translations_def)
  have a': "t_ugettext fr_translations ''Search'' = []"
    by (simp add: t_ugettext_def fr_translations_def)
  have b3: "t_ungettext fr_translations ''%d hit'' ''%d hits'' 3 = []"
    by (simp add: t_ungettext_def fr_translations_def)
  have b1: "t_ungettext fr_translations ''%d hit'' ''%d hits'' 1 = []"
    by (simp add: t_ungettext_def fr_translations_def)
  have c1: "GetText_call no_percent example_world ''Search'' [] [] = (w2, Inr ''Search'')"
    using empty_translation_fallback
            [OF h2, where message = "''Search''" and percent = no_percent and args = "[]"
               and kwargs = "[]"] a'
    by simp
  have c3: "ungettext no_percent example_world ''%d hit'' ''%d hits'' 3 [] [] = (w2, Inr ''%d hits'')"
    using empty_translation_fallback
            [OF h2, where percent = no_percent and args = "[]" and kwargs = "[]"
               and one = "''%d hit''" and many = "''%d hits''" and n = 3] b3
    by simp
  have c4: "ungettext no_percent example_world ''%d hit'' ''%d hits'' 1 [] [] = (w2, Inr ''%d hit'')"
    using empty_translation_fallback
            [OF h2, where percent = no_percent and args = "[]" and kwargs = "[]"
               and one = "''%d hit''" and many = "''%d hits''" and n = 1] b1
    by simp
  show ?thesis using load_fr a b c1 c3 c4 by simp
qed

subsection \<open>Deferred strings\<close>

text \<open>
  C5. Lazy re-evaluation: \<^verbatim>\<open>LazyGetText.__call__\<close> leaves the state as it is and
  resolves nothing; each conversion of the deferred string (\<^verbatim>\<open>__str__\<close>,
  \<^verbatim>\<open>__add__\<close>, \<^verbatim>\<open>__radd__\<close>) runs the whole of \<^verbatim>\<open>GetText.__call__\<close> in the state
  of the conversion, whatever the state \<open>w0\<close> of the creation was, so with the locale
  that is active at the conversion.
\<close>

theorem lazy_reevaluation:
  "fst (LazyGetText_call percent w0 message args kwargs) = w0
   \<and> LazyObject_str (snd (LazyGetText_call percent w0 message args kwargs)) w
       = GetText_call percent w message args kwargs
   \<and> LazyObject_add (snd (LazyGetText_call percent w0 message args kwargs)) other w
       = (case GetText_call percent w message args kwargs of
            (w1, Inl e) \<Rightarrow> (w1, Inl e)
          | (w1, Inr v) \<Rightarrow> (w1, Inr (v @ other)))
   \<and> LazyObject_radd (snd (LazyGetText_call percent w0 message args kwargs)) other w
       = (case GetText_call percent w message args kwargs of
            (w1, Inl e) \<Rightarrow> (w1, Inl e)
          | (w1, Inr v) \<Rightarrow> (w1, Inr (other @ v)))"
  by (auto simp: LazyObject_str_def LazyObject_add_def LazyObject_radd_def LazyGetText_call_def
        safestr_def split: prod.splits sum.splits)

lemma GetText_fr_Hello: "snd (GetText_call no_percent example_world ''Hello'' [] []) = Inr ''Bonjour''"
  by (simp add: GetText_call_def load_defs example_world_def t_ugettext_def fr_translations_def)

lemma GetText_en_Hello:
  "snd (GetText_call no_percent (example_world\<lparr>ctx_lang := ''en''\<rparr>) ''Hello'' [] []) = Inr ''Hello''"
  by (simp add: GetText_call_def load_defs example_world_def)

theorem lazy_reevaluation_witness:
  "ctx_lang (example_world\<lparr>ctx_lang := ''en''\<rparr>) = ''en''
   \<and> ctx_lang example_world = ''fr''
   \<and> snd (GetText_call no_percent (example_world\<lparr>ctx_lang := ''en''\<rparr>) ''Hello'' [] [])
       = Inr ''Hello''
   \<and> snd (LazyObject_str
            (snd (LazyGetText_call no_percent (example_world\<lparr>ctx_lang := ''en''\<rparr>) ''Hello'' [] []))
            example_world) = Inr ''Bonjour''"
  using lazy_reevaluation
          [where percent = no_percent and ?w0.0 = "example_world\<lparr>ctx_lang := ''en''\<rparr>"
             and message = "''Hello''" and args = "[]" and kwargs = "[]" and w = example_world]
        GetText_fr_Hello GetText_en_Hello
  by (simp add: example_world_def)

subsection \<open>Territory names\<close>

lemma gettext_territory_unknown:
  assumes "locale_cache w (ctx_lang w) = None" and "locale_data w (ctx_lang w) = None"
  shows "gettext_territory w code =
           (w\<lparr>locale_cache := (locale_cache w)(ctx_lang w \<mapsto> None)\<rparr>, Inl AttributeError)"
  using assms by (simp add: gettext_territory_def load_locale_def load_locale_body_def)

lemma gettext_territory_known:
  assumes "locale_cache w (ctx_lang w) = None" and "locale_data w (ctx_lang w) = Some l"
  shows "snd (gettext_territory w code) =
           Inr (case territories l code of Some name \<Rightarrow> name | None \<Rightarrow> code)"
  using assms by (simp add: gettext_territory_def load_locale_def load_locale_body_def Let_def)

text \<open>
  C6. For an active locale babel does not know, \<^verbatim>\<open>load_locale\<close> returns \<^verbatim>\<open>None\<close>
  and \<^verbatim>\<open>gettext_territory\<close> raises AttributeError instead of returning the code: here
  with the unknown locale \<^verbatim>\<open>zz\<close> and the territory \<^verbatim>\<open>US\<close>.
\<close>

theorem gettext_territory_unknown_locale_raises:
  "snd (gettext_territory (example_world\<lparr>ctx_lang := ''zz''\<rparr>) ''US'') = Inl AttributeError"
  by (simp add: gettext_territory_def load_locale_def load_locale_body_def example_world_def)

subsection \<open>The file store\<close>

lemma lookup_store [simp]: "lookup (store w p n) q = (if q = p then Some n else lookup w q)"
  by (simp add: lookup_def store_def update_conv')

lemma lookup_print [simp]:
  "lookup (print_stdout w l) p = lookup w p"
  "lookup (print_debug w l) p = lookup w p"
  "lookup (print_stderr w l) p = lookup w p"
  by (simp_all add: lookup_def print_stdout_def print_debug_def print_stderr_def)

lemma files_print [simp]:
  "files (print_stdout w l) = files w"
  "files (print_debug w l) = files w"
  "files (print_stderr w l) = files w"
  by (simp_all add: print_stdout_def print_debug_def print_stderr_def)

lemma root_ops [simp]:
  "root (store w p n) = root w"
  "root (print_stdout w l) = root w"
  "root (print_debug w l) = root w"
  "root (print_stderr w l) = root w"
  by (simp_all add: store_def print_stdout_def print_debug_def print_stderr_def)

lemma debug_ops [simp]:
  "debug (store w p n) = debug w"
  "debug (print_debug w l) = debug w @ [l]"
  by (simp_all add: store_def print_debug_def)

lemma stdout_ops [simp]:
  "stdout (store w p n) = stdout w"
  "stdout (print_stdout w l) = stdout w @ [l]"
  "stdout (print_debug w l) = stdout w"
  by (simp_all add: store_def print_stdout_def print_debug_def)

lemma new_mode_ops [simp]:
  "new_file_mode (store w p n) = new_file_mode w"
  "new_dir_mode (store w p n) = new_dir_mode w"
  "new_file_mode (print_stdout w l) = new_file_mode w"
  "new_dir_mode (print_stdout w l) = new_dir_mode w"
  by (simp_all add: store_def print_stdout_def)

lemma exists_store [simp]: "exists (store w p n) q = (q = p \<or> exists w q)"
  by (simp add: exists_def)

lemma exists_print [simp]:
  "exists (print_stdout w l) p = exists w p"
  "exists (print_debug w l) p = exists w p"
  by (simp_all add: exists_def)

lemma root_write_close [simp]: "root (write_close w p c) = root w"
  by (simp add: write_close_def split: option.splits node.splits)

lemma open_wb_Inr:
  assumes "open_wb w p = Inr w1"
  shows "\<exists>m. w1 = store w p (File Incomplete m)"
  using assms by (auto simp: open_wb_def split: option.splits node.splits)

lemma write_close_after_open:
  "write_close (store w p (File Incomplete m)) p c = store (store w p (File Incomplete m)) p (File c m)"
  by (simp add: write_close_def)

lemma join_longer: "length d < length (join d ''messages.po'')"
  by (simp add: join_def sep_def)

lemma join_ne: "join d ''messages.po'' \<noteq> d"
  using join_longer [of d] by auto

lemma dirname_join:
  assumes "d \<noteq> []" and "last d \<noteq> sep"
  shows "dirname (join d ''messages.po'') = d"
proof -
  have j: "join d ''messages.po'' = d @ [sep] @ ''messages.po''"
    using assms by (simp add: join_def sep_def)
  have r: "rev (d @ [sep] @ ''messages.po'') = rev ''messages.po'' @ [sep] @ rev d"
    by simp
  have dw: "dropWhile (\<lambda>c. c \<noteq> sep) (rev ''messages.po'' @ [sep] @ rev d) = [sep] @ rev d"
    by (simp add: sep_def)
  have hd: "rev d \<noteq> [] \<and> hd (rev d) \<noteq> sep"
    using assms by (simp add: hd_rev)
  then have dw2: "dropWhile (\<lambda>c. c = sep) (rev (d @ [sep])) = rev d"
    by (cases "rev d") auto
  have nall: "\<not> list_all (\<lambda>c. c = sep) (d @ [sep])"
    using assms by (cases d rule: rev_cases) auto
  show ?thesis
    unfolding dirname_def j r dw Let_def rstrip_sep_def
    using nall dw2 by simp
qed

lemma mo_ne_po: "join d ''messages.mo'' \<noteq> join d ''messages.po''"
  by (simp add: join_def sep_def)

lemma example_paths:
  "join (root example_world) ''messages.pot'' = ''/ol/i18n/messages.pot''"
  "join3 (root example_world) ''fr'' ''messages.po'' = ''/ol/i18n/fr/messages.po''"
  "join3 (root example_world) ''fr'' ''messages.mo'' = ''/ol/i18n/fr/messages.mo''"
  "join (root example_world) ''fr'' = ''/ol/i18n/fr''"
  "join (root example_world) ''de'' = ''/ol/i18n/de''"
  "join (root example_world) ''es'' = ''/ol/i18n/es''"
  by (simp_all add: example_world_def join3_def join_def sep_def)

lemma example_lookups:
  "lookup example_world ''/ol/i18n'' = Some (Dir 493)"
  "lookup example_world ''/ol/i18n/messages.pot'' = Some (File (Po template_catalog) 420)"
  "lookup example_world ''/ol/i18n/fr'' = Some (Dir 493)"
  "lookup example_world ''/ol/i18n/fr/messages.po'' = Some (File (Po fr_catalog) 420)"
  "lookup example_world ''/ol/i18n/fr/messages.mo'' = Some (File (Mo fr_translations) 420)"
  "lookup example_world ''/ol/i18n/de'' = Some (Dir 493)"
  "lookup example_world ''/ol/i18n/de/messages.po'' = None"
  "lookup example_world ''/ol/i18n/es'' = None"
  "lookup example_world ''/ol/i18n/es/messages.po'' = None"
  by (simp_all add: example_world_def lookup_def)

lemma get_locales_example: "get_locales example_world = [''fr'']"
  by (simp add: get_locales_def listdir_def example_world_def dirname_def rstrip_sep_def
        basename_def sep_def isdir_def exists_def lookup_def join3_def join_def)

subsection \<open>Validation\<close>

lemma validation_loop_append:
  "validation_loop locale catalog acc =
     acc @ concat (map (\<lambda>m. if fuzzy m
                              then [if lineno_truthy m then fuzzy_line locale m else file_is_fuzzy]
                              else []) catalog)"
  by (induction catalog arbitrary: acc) auto

lemma stdout_foldl_print: "stdout (foldl print_stdout w ls) = stdout w @ ls"
  by (induction ls arbitrary: w) (auto simp: print_stdout_def)

lemma no_fuzzy_concat:
  "\<forall>m\<in>set xs. \<not> fuzzy m \<Longrightarrow> concat (map (\<lambda>m. if fuzzy m then [f m] else []) xs) = []"
  by (induction xs) auto

text \<open>
  C7. Validation gate: \<^verbatim>\<open>_validate_catalog\<close> returns true exactly when it produced no
  diagnostic, and prints the diagnostics it produced; a catalog without fuzzy entries
  gives no diagnostic; a catalog whose only fuzzy entry has a line number gives exactly
  one diagnostic, which holds that line number; a fuzzy entry without line number
  (\<^verbatim>\<open>None\<close> or 0) gives the file-level message instead.
\<close>

theorem validation_gate:
  "snd (validate_catalog w catalog lang) = (validation_errors_of catalog lang = [])
   \<and> stdout (fst (validate_catalog w catalog lang)) =
        stdout w @ (if validation_errors_of catalog lang = [] then []
                    else [''Validation failed...'',
                          ''Please correct the following errors before proceeding:'']
                         @ validation_errors_of catalog lang)
   \<and> ((\<forall>m\<in>set catalog. \<not> fuzzy m) \<longrightarrow> validation_errors_of catalog lang = [])
   \<and> ((\<forall>m\<in>set pre \<union> set post. \<not> fuzzy m) \<and> fuzzy x \<and> lineno x = Some i \<and> i \<noteq> 0 \<longrightarrow>
        validation_errors_of (pre @ [x] @ post) lang =
          [''openlibrary/i18n/'' @ lang @ ''/messages.po:'' @ str_int i @ '': '' @ [CHR 0x22]
             @ message_string_str x @ [CHR 0x22] @ '' is fuzzy.''])
   \<and> ((\<forall>m\<in>set pre \<union> set post. \<not> fuzzy m) \<and> fuzzy x \<and> (lineno x = None \<or> lineno x = Some 0) \<longrightarrow>
        validation_errors_of (pre @ [x] @ post) lang = [file_is_fuzzy])"
proof -
  have a: "snd (validate_catalog w catalog lang) = (validation_errors_of catalog lang = [])"
    by (simp add: validate_catalog_def Let_def)
  have b: "stdout (fst (validate_catalog w catalog lang)) =
        stdout w @ (if validation_errors_of catalog lang = [] then []
                    else [''Validation failed...'',
                          ''Please correct the following errors before proceeding:'']
                         @ validation_errors_of catalog lang)"
    by (simp add: validate_catalog_def Let_def stdout_foldl_print print_stdout_def)
  have c: "(\<forall>m\<in>set catalog. \<not> fuzzy m) \<longrightarrow> validation_errors_of catalog lang = []"
    by (simp add: validation_errors_of_def validation_loop_append no_fuzzy_concat)
  have d: "(\<forall>m\<in>set pre \<union> set post. \<not> fuzzy m) \<and> fuzzy x \<and> lineno x = Some i \<and> i \<noteq> 0 \<longrightarrow>
        validation_errors_of (pre @ [x] @ post) lang =
          [''openlibrary/i18n/'' @ lang @ ''/messages.po:'' @ str_int i @ '': '' @ [CHR 0x22]
             @ message_string_str x @ [CHR 0x22] @ '' is fuzzy.'']"
    by (simp add: validation_errors_of_def validation_loop_append no_fuzzy_concat
          lineno_truthy_def fuzzy_line_def lineno_str_def)
  have e: "(\<forall>m\<in>set pre \<union> set post. \<not> fuzzy m) \<and> fuzzy x \<and> (lineno x = None \<or> lineno x = Some 0) \<longrightarrow>
        validation_errors_of (pre @ [x] @ post) lang = [file_is_fuzzy]"
    by (auto simp add: validation_errors_of_def validation_loop_append no_fuzzy_concat
          lineno_truthy_def)
  from a b c d e show ?thesis by blast
qed

theorem validation_gate_witness:
  "map fuzzy template_catalog = [False, False, False, False]
   \<and> validation_errors_of template_catalog ''fr'' = []
   \<and> snd (validate_catalog example_world template_catalog ''fr'')
   \<and> validation_errors_of fr_catalog ''fr'' =
       [''openlibrary/i18n/fr/messages.po:12: '' @ [CHR 0x22] @ ''Bonjour'' @ [CHR 0x22]
          @ '' is fuzzy.'']
   \<and> \<not> snd (validate_catalog example_world fr_catalog ''fr'')
   \<and> validation_errors_of
        [entry '''' ''Language: fr'' True None, entry ''Hello'' ''Bonjour'' False (Some 12)] ''fr''
       = [file_is_fuzzy]"
proof -
  let ?hello = "entry ''Hello'' ''Bonjour'' True (Some 12)"
  let ?pre = "[entry '''' ''Language: fr'' False None]"
  let ?post = "[entry ''Search'' '''' False (Some 15), entry ''Retired'' ''Retraite'' False (Some 18)]"
  let ?header = "entry '''' ''Language: fr'' True None"
  let ?rest = "[entry ''Hello'' ''Bonjour'' False (Some 12)]"
  have nf: "\<forall>m\<in>set template_catalog. \<not> fuzzy m"
    by (simp add: template_catalog_def entry_def)
  have t0: "validation_errors_of template_catalog ''fr'' = []"
    using validation_gate [where catalog = template_catalog and lang = "''fr''"] nf by blast
  have t1: "snd (validate_catalog example_world template_catalog ''fr'')"
    using validation_gate [where catalog = template_catalog and lang = "''fr''"
                             and w = example_world] t0
    by blast
  have split: "fr_catalog = ?pre @ [?hello] @ ?post"
    by (simp add: fr_catalog_def)
  have hyp: "(\<forall>m\<in>set ?pre \<union> set ?post. \<not> fuzzy m) \<and> fuzzy ?hello \<and> lineno ?hello = Some 12
               \<and> (12::int) \<noteq> 0"
    by (simp add: entry_def)
  have f0: "validation_errors_of (?pre @ [?hello] @ ?post) ''fr'' =
          [''openlibrary/i18n/'' @ ''fr'' @ ''/messages.po:'' @ str_int 12 @ '': '' @ [CHR 0x22]
             @ message_string_str ?hello @ [CHR 0x22] @ '' is fuzzy.'']"
    using validation_gate [where pre = ?pre and x = ?hello and post = ?post and i = 12
                             and lang = "''fr''"] hyp
    by blast
  have s12: "str_int 12 = ''12''"
    by (simp add: str_int_def str_nat.simps)
  have ms: "message_string_str ?hello = ''Bonjour''"
    by (simp add: message_string_str_def entry_def)
  have f1: "validation_errors_of fr_catalog ''fr'' =
       [''openlibrary/i18n/fr/messages.po:12: '' @ [CHR 0x22] @ ''Bonjour'' @ [CHR 0x22]
          @ '' is fuzzy.'']"
    using f0 by (simp add: split s12 ms)
  have f2: "\<not> snd (validate_catalog example_world fr_catalog ''fr'')"
    using validation_gate [where catalog = fr_catalog and lang = "''fr''" and w = example_world] f1
    by simp
  have hyp2: "(\<forall>m\<in>set [] \<union> set ?rest. \<not> fuzzy m) \<and> fuzzy ?header
                \<and> (lineno ?header = None \<or> lineno ?header = Some 0)"
    by (simp add: entry_def)
  have g0: "validation_errors_of ([] @ [?header] @ ?rest) ''fr'' = [file_is_fuzzy]"
    using validation_gate [where pre = "[]" and x = ?header and post = ?rest and lang = "''fr''"]
          hyp2
    by blast
  have nf': "map fuzzy template_catalog = [False, False, False, False]"
    by (simp add: template_catalog_def entry_def)
  from nf' t0 t1 f1 f2 g0 show ?thesis by simp
qed

subsection \<open>Compilation\<close>

text \<open>
  C8, as amended. \<^verbatim>\<open>_compile_translation\<close> either writes the compiled catalog to the
  output path, or raises the exception of the step that failed, unchanged. A failure of
  reading or parsing the working catalog, or of opening the output, leaves every file as
  it was; a failure of the serialiser, which runs after the output has been opened, leaves
  an unfinished file at the output path and every other path as it was.
\<close>

theorem compile_translation_outcome:
  assumes "compile_translation write_mo w po mo = (w', r)"
  shows "(\<exists>catalog t m. r = Inr () \<and> open_rb w po = Inr (Po catalog) \<and> write_mo catalog = Inr t
            \<and> lookup w' mo = Some (File (Mo t) m) \<and> (\<forall>p. p \<noteq> mo \<longrightarrow> lookup w' p = lookup w p)
            \<and> debug w' = debug w @ [''compiled '' @ po])
       \<or> (\<exists>e. r = Inl e \<and> files w' = files w \<and> debug w' = debug w @ [''failed to compile '' @ po]
            \<and> (open_rb w po = Inl e
                \<or> (\<exists>c. open_rb w po = Inr c \<and> read_po c = Inl e)
                \<or> (\<exists>catalog. open_rb w po = Inr (Po catalog) \<and> open_wb w mo = Inl e)))
       \<or> (\<exists>e catalog m. r = Inl e \<and> open_rb w po = Inr (Po catalog) \<and> write_mo catalog = Inl e
            \<and> lookup w' mo = Some (File Incomplete m) \<and> (\<forall>p. p \<noteq> mo \<longrightarrow> lookup w' p = lookup w p)
            \<and> debug w' = debug w @ [''failed to compile '' @ po])"
proof (cases "open_rb w po")
  case (Inl e)
  with assms show ?thesis by (auto simp: compile_translation_def)
next
  case (Inr c)
  note c = this
  show ?thesis
  proof (cases "read_po c")
    case (Inl e)
    with assms c show ?thesis by (auto simp: compile_translation_def)
  next
    case (Inr catalog)
    then have cpo: "c = Po catalog" by (auto simp: read_po_def split: content.splits)
    note rp = Inr
    show ?thesis
    proof (cases "open_wb w mo")
      case (Inl e)
      with assms c rp cpo show ?thesis by (auto simp: compile_translation_def)
    next
      case (Inr w1)
      then obtain m where w1: "w1 = store w mo (File Incomplete m)"
        using open_wb_Inr by blast
      show ?thesis
      proof (cases "write_mo catalog")
        case (Inl e)
        with assms c rp cpo Inr w1 show ?thesis
          by (auto simp: compile_translation_def)
      next
        case (Inr t)
        with assms c rp cpo \<open>open_wb w mo = Inr w1\<close> w1 show ?thesis
          by (auto simp: compile_translation_def write_close_after_open)
      qed
    qed
  qed
qed

theorem compile_translation_outcome_witness:
  "snd (compile_translation failing_write_mo example_world
          ''/ol/i18n/fr/messages.po'' ''/ol/i18n/fr/messages.mo'') = Inl OSError
   \<and> debug (fst (compile_translation failing_write_mo example_world
                   ''/ol/i18n/fr/messages.po'' ''/ol/i18n/fr/messages.mo''))
       = [''failed to compile /ol/i18n/fr/messages.po'']
   \<and> snd (compile_translation working_write_mo example_world
            ''/ol/i18n/fr/messages.po'' ''/ol/i18n/fr/messages.mo'') = Inr ()
   \<and> (\<exists>m. lookup (fst (compile_translation working_write_mo example_world
                    ''/ol/i18n/fr/messages.po'' ''/ol/i18n/fr/messages.mo''))
        ''/ol/i18n/fr/messages.mo'' = Some (File (Mo fr_translations) m))"
proof -
  let ?po = "''/ol/i18n/fr/messages.po''" and ?mo = "''/ol/i18n/fr/messages.mo''"
  let ?f = "compile_translation failing_write_mo example_world ?po ?mo"
  let ?g = "compile_translation working_write_mo example_world ?po ?mo"
  have hf: "?f = (fst ?f, snd ?f)" and hg: "?g = (fst ?g, snd ?g)" by simp_all
  have rd: "open_rb example_world ?po = Inr (Po fr_catalog)"
    by (simp add: open_rb_def example_lookups)
  have ow: "\<And>e. open_wb example_world ?mo \<noteq> Inl e"
    by (simp add: open_wb_def example_lookups)
  have d0: "debug example_world = []" by (simp add: example_world_def)
  have f1: "snd ?f = Inl OSError \<and> debug (fst ?f) = [''failed to compile /ol/i18n/fr/messages.po'']"
    using compile_translation_outcome [OF hf] rd ow d0
    by (auto simp: failing_write_mo_def read_po_def)
  have g1: "snd ?g = Inr () \<and> (\<exists>m. lookup (fst ?g) ?mo = Some (File (Mo fr_translations) m))"
    using compile_translation_outcome [OF hg] rd ow
    by (auto simp: working_write_mo_def read_po_def)
  from f1 g1 show ?thesis by blast
qed

text \<open>
  The claim C8 as stated fails: the serialiser raises, and the compiled catalog that was at
  the output path is replaced by an unfinished file.
\<close>

theorem compile_failure_counterexample:
  "lookup example_world ''/ol/i18n/fr/messages.mo'' = Some (File (Mo fr_translations) 420)
   \<and> snd (compile_translation failing_write_mo example_world
            ''/ol/i18n/fr/messages.po'' ''/ol/i18n/fr/messages.mo'') = Inl OSError
   \<and> lookup (fst (compile_translation failing_write_mo example_world
                    ''/ol/i18n/fr/messages.po'' ''/ol/i18n/fr/messages.mo''))
        ''/ol/i18n/fr/messages.mo'' = Some (File Incomplete 420)"
  by (simp add: compile_translation_def open_rb_def open_wb_def read_po_def example_lookups
        failing_write_mo_def)

text \<open>
  The claim C2 as stated fails on its last clause. After the failed compilation above the
  unfinished file exists, so \<^verbatim>\<open>load_translations\<close> tries to read it, nothing handles
  the exception, and the resolution of a message that is in no catalog raises instead of
  returning the message.
\<close>

theorem resolution_after_failed_compile_counterexample:
  "lookup (fst (compile_translation failing_write_mo example_world
                  ''/ol/i18n/fr/messages.po'' ''/ol/i18n/fr/messages.mo''))
       ''/ol/i18n/fr/messages.mo'' = Some (File Incomplete 420)
   \<and> ctx_lang (fst (compile_translation failing_write_mo example_world
                  ''/ol/i18n/fr/messages.po'' ''/ol/i18n/fr/messages.mo'')) = ''fr''
   \<and> snd (GetText_call no_percent
          (fst (compile_translation failing_write_mo example_world
                  ''/ol/i18n/fr/messages.po'' ''/ol/i18n/fr/messages.mo''))
          ''Goodbye'' [] []) = Inl MoFileError"
proof -
  let ?w = "print_debug (store example_world ''/ol/i18n/fr/messages.mo'' (File Incomplete 420))
              ''failed to compile /ol/i18n/fr/messages.po''"
  have w: "fst (compile_translation failing_write_mo example_world
                  ''/ol/i18n/fr/messages.po'' ''/ol/i18n/fr/messages.mo'') = ?w"
    by (simp add: compile_translation_def open_rb_def open_wb_def read_po_def example_lookups
          failing_write_mo_def)
  have c: "translations_cache ?w (ctx_lang ?w) = None"
    by (simp add: print_debug_def store_def example_world_def)
  have p: "join3 (root ?w) (ctx_lang ?w) ''messages.mo'' = ''/ol/i18n/fr/messages.mo''"
    by (simp add: print_debug_def store_def example_world_def join3_def join_def sep_def)
  have l: "lookup ?w (join3 (root ?w) (ctx_lang ?w) ''messages.mo'') = Some (File Incomplete 420)"
    unfolding p by simp
  have g: "ctx_lang ?w = ''fr''"
    by (simp add: print_debug_def store_def example_world_def)
  have r: "snd (GetText_call no_percent ?w ''Goodbye'' [] []) = Inl MoFileError"
    using load_translations_unfinished [OF c l] by (simp add: GetText_call_def)
  show ?thesis
    unfolding w using l [unfolded p] g r by simp
qed

lemma compile_translation_frame:
  assumes "p \<noteq> mo"
  shows "lookup (fst (compile_translation write_mo w po mo)) p = lookup w p"
  using assms
  by (auto simp: compile_translation_def write_close_def open_wb_def
        split: sum.splits option.splits node.splits)

lemma compile_translations_single_frame:
  assumes "p \<noteq> join3 (root w) l ''messages.mo''"
  shows "lookup (fst (compile_translations write_mo w [l])) p = lookup w p"
proof -
  let ?po = "join3 (root w) l ''messages.po''"
  let ?mo = "join3 (root w) l ''messages.mo''"
  obtain w2 r where c: "compile_translation write_mo w ?po ?mo = (w2, r)"
    by (cases "compile_translation write_mo w ?po ?mo")
  have f: "lookup w2 p = lookup w p"
    using compile_translation_frame [OF assms, of write_mo w ?po] c by simp
  show ?thesis
  proof (cases "exists w ?po")
    case True
    then show ?thesis
      using c f by (cases r) (simp_all add: compile_translations_def Let_def)
  next
    case False
    then show ?thesis by (simp add: compile_translations_def Let_def)
  qed
qed

subsection \<open>Seeding a locale\<close>

lemma generate_po_dir_only:
  assumes "po_dir = join (root w) a0"
      and "pot_src = join (root w) ''messages.pot''"
      and "po_dest = join po_dir ''messages.po''"
      and "lookup w po_dir = Some (Dir dm)" and "\<not> exists w po_dest"
      and "dirname po_dest = po_dir" and "lookup w pot_src = Some (File c m)"
  shows "\<exists>w'. generate_po w (a0 # rest) = (w', Inr ())
            \<and> lookup w' po_dest = Some (File c 438)
            \<and> (\<forall>p. p \<noteq> po_dest \<longrightarrow> lookup w' p = lookup w p)
            \<and> stdout w' = stdout w @ [''File created at '' @ po_dest]"
proof -
  have ne: "po_dest \<noteq> po_dir" using assms(3) join_ne by simp
  show ?thesis
    using assms ne
    by (auto simp: generate_po_def Let_def copy_template_def copy_def isdir_def exists_def
          open_wb_def chmod_def)
qed

lemma generate_po_fresh:
  assumes "po_dir = join (root w) a0"
      and "pot_src = join (root w) ''messages.pot''"
      and "po_dest = join po_dir ''messages.po''"
      and "\<not> exists w po_dir" and "lookup w (dirname po_dir) = Some (Dir dm)"
      and "\<not> exists w po_dest"
      and "dirname po_dest = po_dir" and "lookup w pot_src = Some (File c m)"
  shows "\<exists>w'. generate_po w (a0 # rest) = (w', Inr ())
            \<and> lookup w' po_dir = Some (Dir 511)
            \<and> lookup w' po_dest = Some (File c 438)
            \<and> (\<forall>p. p \<noteq> po_dest \<and> p \<noteq> po_dir \<longrightarrow> lookup w' p = lookup w p)
            \<and> stdout w' = stdout w @ [''File created at '' @ po_dest]"
proof -
  have ne: "po_dest \<noteq> po_dir" using assms(3) join_ne by simp
  show ?thesis
    using assms ne
    by (auto simp: generate_po_def Let_def copy_template_def copy_def isdir_def exists_def
          open_wb_def chmod_def mkdir_def)
qed

text \<open>
  C9, as amended. \<^verbatim>\<open>generate_po\<close> without a locale code only reports it. When the
  locale directory and the working catalog both exist, it reports that the catalog exists
  and changes no file. When the directory exists and the catalog does not, it copies the
  template to the catalog path with mode \<^verbatim>\<open>0o666\<close>. When the directory does not exist,
  it creates it with mode \<^verbatim>\<open>0o777\<close> and copies the template likewise.
\<close>

theorem generate_po_outcome:
  assumes "po_dir = join (root w) a0"
      and "pot_src = join (root w) ''messages.pot''"
      and "po_dest = join po_dir ''messages.po''"
  shows "generate_po w [] = (print_stdout w ''Add failed. Missing required locale code.'', Inr ())
    \<and> (exists w po_dir \<and> exists w po_dest \<longrightarrow>
         generate_po w (a0 # rest) =
           (print_stdout w (''Portable object file already exists at '' @ po_dest), Inr ()))
    \<and> (lookup w po_dir = Some (Dir dm) \<and> \<not> exists w po_dest \<and> dirname po_dest = po_dir
         \<and> lookup w pot_src = Some (File c m) \<longrightarrow>
         (\<exists>w'. generate_po w (a0 # rest) = (w', Inr ())
            \<and> lookup w' po_dest = Some (File c 438)
            \<and> (\<forall>p. p \<noteq> po_dest \<longrightarrow> lookup w' p = lookup w p)
            \<and> stdout w' = stdout w @ [''File created at '' @ po_dest]))
    \<and> (\<not> exists w po_dir \<and> lookup w (dirname po_dir) = Some (Dir dm) \<and> \<not> exists w po_dest
         \<and> dirname po_dest = po_dir \<and> lookup w pot_src = Some (File c m) \<longrightarrow>
         (\<exists>w'. generate_po w (a0 # rest) = (w', Inr ())
            \<and> lookup w' po_dir = Some (Dir 511)
            \<and> lookup w' po_dest = Some (File c 438)
            \<and> (\<forall>p. p \<noteq> po_dest \<and> p \<noteq> po_dir \<longrightarrow> lookup w' p = lookup w p)
            \<and> stdout w' = stdout w @ [''File created at '' @ po_dest]))"
proof -
  have a: "generate_po w [] = (print_stdout w ''Add failed. Missing required locale code.'', Inr ())"
    by (simp add: generate_po_def)
  have b: "exists w po_dir \<and> exists w po_dest \<longrightarrow>
         generate_po w (a0 # rest) =
           (print_stdout w (''Portable object file already exists at '' @ po_dest), Inr ())"
    using assms by (simp add: generate_po_def Let_def)
  show ?thesis
    using a b generate_po_dir_only [OF assms, of dm c m rest]
      generate_po_fresh [OF assms, of dm c m rest]
    by blast
qed

theorem generate_po_outcome_witness:
  "generate_po example_world [''fr''] =
     (print_stdout example_world ''Portable object file already exists at /ol/i18n/fr/messages.po'',
      Inr ())
   \<and> snd (generate_po example_world [''de'']) = Inr ()
   \<and> lookup (fst (generate_po example_world [''de''])) ''/ol/i18n/de/messages.po''
       = Some (File (Po template_catalog) 438)
   \<and> snd (generate_po example_world [''es'']) = Inr ()
   \<and> lookup (fst (generate_po example_world [''es''])) ''/ol/i18n/es'' = Some (Dir 511)
   \<and> lookup (fst (generate_po example_world [''es''])) ''/ol/i18n/es/messages.po''
       = Some (File (Po template_catalog) 438)"
proof -
  have pot: "''/ol/i18n/messages.pot'' = join (root example_world) ''messages.pot''"
    by (simp add: example_paths)
  have fr: "''/ol/i18n/fr'' = join (root example_world) ''fr''"
    and de: "''/ol/i18n/de'' = join (root example_world) ''de''"
    and es: "''/ol/i18n/es'' = join (root example_world) ''es''"
    by (simp_all add: example_paths)
  have po: "''/ol/i18n/fr/messages.po'' = join ''/ol/i18n/fr'' ''messages.po''"
           "''/ol/i18n/de/messages.po'' = join ''/ol/i18n/de'' ''messages.po''"
           "''/ol/i18n/es/messages.po'' = join ''/ol/i18n/es'' ''messages.po''"
    by (simp_all add: join_def sep_def)
  have dn: "dirname ''/ol/i18n/de/messages.po'' = ''/ol/i18n/de''"
           "dirname ''/ol/i18n/es/messages.po'' = ''/ol/i18n/es''"
           "dirname ''/ol/i18n/es'' = ''/ol/i18n''"
    by (simp_all add: dirname_def rstrip_sep_def sep_def)
  have parent: "lookup example_world (dirname ''/ol/i18n/es'') = Some (Dir 493)"
    by (simp add: dn example_lookups)
  have ex: "exists example_world ''/ol/i18n/fr''" "exists example_world ''/ol/i18n/fr/messages.po''"
           "\<not> exists example_world ''/ol/i18n/de/messages.po''"
           "\<not> exists example_world ''/ol/i18n/es''"
           "\<not> exists example_world ''/ol/i18n/es/messages.po''"
    by (simp_all add: exists_def example_lookups)
  have a: "generate_po example_world [''fr''] =
     (print_stdout example_world ''Portable object file already exists at /ol/i18n/fr/messages.po'',
      Inr ())"
  proof -
    have "exists example_world ''/ol/i18n/fr'' \<and> exists example_world ''/ol/i18n/fr/messages.po''
          \<longrightarrow> generate_po example_world [''fr''] =
           (print_stdout example_world
              (''Portable object file already exists at '' @ ''/ol/i18n/fr/messages.po''), Inr ())"
      using generate_po_outcome [OF fr pot po(1), where rest = "[]"] by blast
    then show ?thesis using ex(1) ex(2) by simp
  qed
  have b: "snd (generate_po example_world [''de'']) = Inr ()
      \<and> lookup (fst (generate_po example_world [''de''])) ''/ol/i18n/de/messages.po''
          = Some (File (Po template_catalog) 438)"
  proof -
    have "\<exists>w'. generate_po example_world [''de''] = (w', Inr ())
            \<and> lookup w' ''/ol/i18n/de/messages.po'' = Some (File (Po template_catalog) 438)
            \<and> (\<forall>p. p \<noteq> ''/ol/i18n/de/messages.po'' \<longrightarrow> lookup w' p = lookup example_world p)
            \<and> stdout w' = stdout example_world @ [''File created at '' @ ''/ol/i18n/de/messages.po'']"
      using generate_po_outcome
              [OF de pot po(2), where rest = "[]" and dm = 493 and c = "Po template_catalog"
                 and m = 420]
            ex(3) dn(1) example_lookups(6) example_lookups(2)
      by blast
    then obtain w' where "generate_po example_world [''de''] = (w', Inr ())"
      and "lookup w' ''/ol/i18n/de/messages.po'' = Some (File (Po template_catalog) 438)"
      by blast
    then show ?thesis by simp
  qed
  have c: "snd (generate_po example_world [''es'']) = Inr ()
      \<and> lookup (fst (generate_po example_world [''es''])) ''/ol/i18n/es'' = Some (Dir 511)
      \<and> lookup (fst (generate_po example_world [''es''])) ''/ol/i18n/es/messages.po''
          = Some (File (Po template_catalog) 438)"
  proof -
    have "\<exists>w'. generate_po example_world [''es''] = (w', Inr ())
            \<and> lookup w' ''/ol/i18n/es'' = Some (Dir 511)
            \<and> lookup w' ''/ol/i18n/es/messages.po'' = Some (File (Po template_catalog) 438)
            \<and> (\<forall>p. p \<noteq> ''/ol/i18n/es/messages.po'' \<and> p \<noteq> ''/ol/i18n/es''
                   \<longrightarrow> lookup w' p = lookup example_world p)
            \<and> stdout w' = stdout example_world @ [''File created at '' @ ''/ol/i18n/es/messages.po'']"
      using generate_po_outcome
              [OF es pot po(3), where rest = "[]" and dm = 493 and c = "Po template_catalog"
                 and m = 420]
            ex(4) ex(5) dn(2) parent example_lookups(2)
      by blast
    then obtain w' where "generate_po example_world [''es''] = (w', Inr ())"
      and "lookup w' ''/ol/i18n/es'' = Some (Dir 511)"
      and "lookup w' ''/ol/i18n/es/messages.po'' = Some (File (Po template_catalog) 438)"
      by blast
    then show ?thesis by simp
  qed
  from a b c show ?thesis by blast
qed

text \<open>
  The claim C9 as stated fails: with the directory of \<^verbatim>\<open>de\<close> present and no working
  catalog in it, \<^verbatim>\<open>generate_po\<close> raises nothing and reports no failure; it creates the
  catalog from the template.
\<close>

theorem seed_existing_directory_counterexample:
  "exists example_world ''/ol/i18n/de''
   \<and> \<not> exists example_world ''/ol/i18n/de/messages.po''
   \<and> snd (generate_po example_world [''de'']) = Inr ()
   \<and> stdout (fst (generate_po example_world [''de''])) = [''File created at /ol/i18n/de/messages.po'']
   \<and> lookup (fst (generate_po example_world [''de''])) ''/ol/i18n/de/messages.po''
       = Some (File (Po template_catalog) 438)"
proof -
  have pot: "''/ol/i18n/messages.pot'' = join (root example_world) ''messages.pot''"
    and de: "''/ol/i18n/de'' = join (root example_world) ''de''"
    by (simp_all add: example_paths)
  have po: "''/ol/i18n/de/messages.po'' = join ''/ol/i18n/de'' ''messages.po''"
    by (simp add: join_def sep_def)
  have dn: "dirname ''/ol/i18n/de/messages.po'' = ''/ol/i18n/de''"
    by (simp add: dirname_def rstrip_sep_def sep_def)
  have ex: "exists example_world ''/ol/i18n/de''"
    and nex: "\<not> exists example_world ''/ol/i18n/de/messages.po''"
    by (simp_all add: exists_def example_lookups)
  have out: "stdout example_world = []" by (simp add: example_world_def)
  obtain w' where g: "generate_po example_world [''de''] = (w', Inr ())"
      and l: "lookup w' ''/ol/i18n/de/messages.po'' = Some (File (Po template_catalog) 438)"
      and s: "stdout w' = stdout example_world @ [''File created at '' @ ''/ol/i18n/de/messages.po'']"
    using generate_po_dir_only
            [OF de pot po example_lookups(6) nex dn example_lookups(2), of "[]"]
    by blast
  show ?thesis
    using ex nex by (simp add: g l s out)
qed

subsection \<open>Synchronisation\<close>

lemma msg_id_merge [simp]: "msg_id (merge_message existing t) = msg_id t"
  by (simp add: merge_message_def split: option.splits)

lemma find_message_update:
  "find_message (catalog_update existing template) i =
     map_option (merge_message existing) (find_message template i)"
  by (induction template) (auto simp: find_message_def catalog_update_def)

lemma find_message_present:
  assumes "i \<in> msg_id ` set catalog"
  shows "\<exists>t. find_message catalog i = Some t \<and> msg_id t = i"
  using assms by (induction catalog) (auto simp: find_message_def)

lemma update_translations_single:
  assumes "lookup w (join (root w) ''messages.pot'') = Some (File (Po template) pm)"
      and "lookup w (join3 (root w) l ''messages.po'') = Some (File (Po existing) m)"
  shows "lookup (fst (update_translations write_mo w [l])) (join3 (root w) l ''messages.po'')
           = Some (File (Po (catalog_update existing template)) m)"
proof -
  let ?po = "join3 (root w) l ''messages.po''"
  let ?mo = "join3 (root w) l ''messages.mo''"
  let ?w0 = "print_stdout w (''Updating '' @ py_repr_list [l])"
  let ?w1 = "print_stdout
               (write_close (store ?w0 ?po (File Incomplete m)) ?po
                  (Po (catalog_update existing template)))
               (''updated '' @ ?po)"
  have ne: "?po \<noteq> ?mo" using mo_ne_po [of "join (root w) l"] by (simp add: join3_def)
  have loop: "update_loop ?w0 template [l] = (?w1, Inr ())"
    using assms(2) by (simp add: Let_def exists_def open_rb_def read_po_def open_wb_def)
  have l1: "lookup ?w1 ?po = Some (File (Po (catalog_update existing template)) m)"
    by (simp add: write_close_def)
  have r1: "root ?w1 = root w" by (simp add: write_close_def)
  have fin: "lookup (fst (compile_translations write_mo ?w1 [l])) ?po = lookup ?w1 ?po"
    by (rule compile_translations_single_frame) (simp add: ne)
  have "update_translations write_mo w [l] = compile_translations write_mo ?w1 [l]"
    using assms(1) loop by (simp add: update_translations_def Let_def open_rb_def read_po_def)
  with fin l1 show ?thesis by simp
qed

lemma find_Hello: "find_message fr_catalog ''Hello'' = Some (entry ''Hello'' ''Bonjour'' True (Some 12))"
  by (simp add: find_message_def fr_catalog_def entry_def)

lemma find_Browse: "find_message fr_catalog ''Browse'' = None"
  by (simp add: find_message_def fr_catalog_def entry_def)

lemma template_ids: "''Hello'' \<in> msg_id ` set template_catalog" "''Browse'' \<in> msg_id ` set template_catalog"
  by (simp_all add: template_catalog_def entry_def)

lemma example_pot:
  "lookup example_world (join (root example_world) ''messages.pot'')
     = Some (File (Po template_catalog) 420)"
  by (simp add: example_paths example_lookups)

lemma example_po:
  "lookup example_world (join3 (root example_world) ''fr'' ''messages.po'')
     = Some (File (Po fr_catalog) 420)"
  by (simp add: example_paths example_lookups)

text \<open>
  C1. Merge preserves content: when the working catalog of a locale has the message id
  \<open>M\<close> with translation \<open>T\<close> and the template still has \<open>M\<close>, the working catalog
  that \<^verbatim>\<open>update_translations\<close> leaves for that locale has \<open>M\<close> with translation \<open>T\<close>
  (and the plural translations and fuzzy state it had), whatever the compilation that
  follows does.
\<close>

theorem merge_preserves_content:
  assumes "lookup w (join (root w) ''messages.pot'') = Some (File (Po template) pm)"
      and "lookup w (join3 (root w) l ''messages.po'') = Some (File (Po existing) m)"
      and "find_message existing M = Some e"
      and "M \<in> msg_id ` set template"
  shows "\<exists>merged x. lookup (fst (update_translations write_mo w [l])) (join3 (root w) l ''messages.po'')
                     = Some (File (Po merged) m)
           \<and> find_message merged M = Some x
           \<and> msg_string x = msg_string e \<and> plural_translations x = plural_translations e
           \<and> fuzzy x = fuzzy e"
proof -
  obtain t where t: "find_message template M = Some t" "msg_id t = M"
    using find_message_present [OF assms(4)] by blast
  have "find_message (catalog_update existing template) M = Some (merge_message existing t)"
    using t by (simp add: find_message_update)
  moreover have "msg_string (merge_message existing t) = msg_string e
       \<and> plural_translations (merge_message existing t) = plural_translations e
       \<and> fuzzy (merge_message existing t) = fuzzy e"
    using t assms(3) by (simp add: merge_message_def)
  ultimately show ?thesis
    using update_translations_single [OF assms(1,2)] by blast
qed

theorem merge_preserves_content_witness:
  "find_message fr_catalog ''Hello'' = Some (entry ''Hello'' ''Bonjour'' True (Some 12))
   \<and> ''Hello'' \<in> msg_id ` set template_catalog
   \<and> (\<exists>merged x. lookup (fst (update_translations working_write_mo example_world [''fr'']))
                     ''/ol/i18n/fr/messages.po'' = Some (File (Po merged) 420)
         \<and> find_message merged ''Hello'' = Some x \<and> msg_string x = ''Bonjour'' \<and> fuzzy x)"
proof -
  obtain merged x where
    "lookup (fst (update_translations working_write_mo example_world [''fr'']))
       (join3 (root example_world) ''fr'' ''messages.po'') = Some (File (Po merged) 420)"
    and "find_message merged ''Hello'' = Some x"
    and "msg_string x = msg_string (entry ''Hello'' ''Bonjour'' True (Some 12))"
    and "fuzzy x = fuzzy (entry ''Hello'' ''Bonjour'' True (Some 12))"
    using merge_preserves_content
            [OF example_pot example_po find_Hello template_ids(1), where write_mo = working_write_mo]
    by blast
  then have "lookup (fst (update_translations working_write_mo example_world [''fr'']))
                     ''/ol/i18n/fr/messages.po'' = Some (File (Po merged) 420)
         \<and> find_message merged ''Hello'' = Some x \<and> msg_string x = ''Bonjour'' \<and> fuzzy x"
    by (simp add: example_paths entry_def)
  then show ?thesis using find_Hello template_ids(1) by blast
qed

text \<open>
  C4. Merge adds newcomers: a message id that only the template has is, in the working
  catalog that \<^verbatim>\<open>update_translations\<close> leaves, an entry with an empty translation that
  is not fuzzy.
\<close>

theorem merge_adds_newcomers:
  assumes "lookup w (join (root w) ''messages.pot'') = Some (File (Po template) pm)"
      and "lookup w (join3 (root w) l ''messages.po'') = Some (File (Po existing) m)"
      and "find_message existing M = None"
      and "M \<in> msg_id ` set template"
  shows "\<exists>merged x. lookup (fst (update_translations write_mo w [l])) (join3 (root w) l ''messages.po'')
                     = Some (File (Po merged) m)
           \<and> find_message merged M = Some x
           \<and> msg_string x = [] \<and> plural_translations x = [] \<and> \<not> fuzzy x"
proof -
  obtain t where t: "find_message template M = Some t" "msg_id t = M"
    using find_message_present [OF assms(4)] by blast
  have "find_message (catalog_update existing template) M = Some (merge_message existing t)"
    using t by (simp add: find_message_update)
  moreover have "msg_string (merge_message existing t) = []
       \<and> plural_translations (merge_message existing t) = []
       \<and> \<not> fuzzy (merge_message existing t)"
    using t assms(3) by (simp add: merge_message_def)
  ultimately show ?thesis
    using update_translations_single [OF assms(1,2)] by blast
qed

theorem merge_adds_newcomers_witness:
  "find_message fr_catalog ''Browse'' = None
   \<and> ''Browse'' \<in> msg_id ` set template_catalog
   \<and> (\<exists>merged x. lookup (fst (update_translations working_write_mo example_world [''fr'']))
                     ''/ol/i18n/fr/messages.po'' = Some (File (Po merged) 420)
         \<and> find_message merged ''Browse'' = Some x \<and> msg_string x = [] \<and> \<not> fuzzy x)"
proof -
  obtain merged x where
    "lookup (fst (update_translations working_write_mo example_world [''fr'']))
       (join3 (root example_world) ''fr'' ''messages.po'') = Some (File (Po merged) 420)"
    and "find_message merged ''Browse'' = Some x"
    and "msg_string x = []" and "\<not> fuzzy x"
    using merge_adds_newcomers
            [OF example_pot example_po find_Browse template_ids(2), where write_mo = working_write_mo]
    by blast
  then have "lookup (fst (update_translations working_write_mo example_world [''fr'']))
                     ''/ol/i18n/fr/messages.po'' = Some (File (Po merged) 420)
         \<and> find_message merged ''Browse'' = Some x \<and> msg_string x = [] \<and> \<not> fuzzy x"
    by (simp add: example_paths)
  then show ?thesis using find_Browse template_ids(2) by blast
qed

end
